theory Spec2Isabelle
  imports Complex_Main "HOL-Library.Log_Nat"
begin

section \<open>NumLab-VPN: the file registry server (server.js)\<close>

text \<open>
  The server keeps a list of file records in \<^verbatim>\<open>data/files.json\<close>, the uploaded bytes in
  the directory \<^verbatim>\<open>uploads\<close>, and the admin token in \<^verbatim>\<open>process.env.ADMIN_TOKEN\<close>.
  Every route handler is modelled as a function from the request and the server state to
  the response and the new state. What the handlers obtain from outside the program
  (the clock, \<^verbatim>\<open>uuidv4\<close>, the \<^verbatim>\<open>Date\<close> constructor, \<^verbatim>\<open>bcrypt.compare\<close>, whether a write
  to disk succeeds) is a field of the record \<open>env\<close> that each handler takes.

  Strings are lists of code units; a \<^typ>\<open>char\<close> stands for a code unit below 256.
  Numbers that the program itself produces (byte sizes, download counts) are naturals:
  JavaScript computes exactly on integers below \<open>2 ^ 53\<close>, and the model is about
  that range.
\<close>

subsection \<open>JavaScript values\<close>

datatype jsval =
    JUndefined
  | JNull
  | JBool bool
  | JNum int
  | JStr string
  | JArr "jsval list"
  | JObj "(string \<times> jsval) list"

text \<open>The values of a JSON body. A number is represented by an integer (a fraction
  takes the same branches as a non-zero integer in every test the handlers make). An object
  is the list of its properties, each name once; reading a property that is not there gives
  \<^verbatim>\<open>undefined\<close>.\<close>

definition getProp :: "(string \<times> jsval) list \<Rightarrow> string \<Rightarrow> jsval" where
  "getProp obj key = (case map_of obj key of None \<Rightarrow> JUndefined | Some v \<Rightarrow> v)"

fun truthy :: "jsval \<Rightarrow> bool" where
  "truthy JUndefined = False"
| "truthy JNull = False"
| "truthy (JBool b) = b"
| "truthy (JNum n) = (n \<noteq> 0)"
| "truthy (JStr s) = (s \<noteq> [])"
| "truthy (JArr xs) = True"
| "truthy (JObj obj) = True"

text \<open>\<^verbatim>\<open>String.prototype.trim\<close>: white space and line terminators among the code units
  below 256 are TAB, LF, VT, FF, CR, SP and NBSP.\<close>

definition isWhiteSpace :: "char \<Rightarrow> bool" where
  "isWhiteSpace c = (of_char c \<in> {9, 10, 11, 12, 13, 32, 160 :: nat})"

definition trim :: "string \<Rightarrow> string" where
  "trim s = rev (dropWhile isWhiteSpace (rev (dropWhile isWhiteSpace s)))"

text \<open>\<^verbatim>\<open>v.trim()\<close> on a value of a request body: a string is trimmed, on anything else
  the call raises a TypeError (\<open>None\<close>).\<close>

fun callTrim :: "jsval \<Rightarrow> string option" where
  "callTrim (JStr s) = Some (trim s)"
| "callTrim _ = None"

text \<open>Comparison of two \<^verbatim>\<open>Date\<close> objects by their time values; the time value of an
  invalid date is NaN (\<open>None\<close>), and every comparison with NaN is false.\<close>

fun js_lt :: "int option \<Rightarrow> int option \<Rightarrow> bool" where
  "js_lt (Some a) (Some b) = (a < b)"
| "js_lt _ _ = False"

fun js_le :: "int option \<Rightarrow> int option \<Rightarrow> bool" where
  "js_le (Some a) (Some b) = (a \<le> b)"
| "js_le _ _ = False"

subsection \<open>formatFileSize\<close>

text \<open>
  \<^verbatim>\<open>
  function formatFileSize(bytes) {
      if (bytes === 0) return '0 Bytes';
      const k = 1024;
      const sizes = ['Bytes', 'KB', 'MB', 'GB'];
      const i = Math.floor(Math.log(bytes) / Math.log(k));
      return parseFloat((bytes / Math.pow(k, i)).toFixed(2)) + ' ' + sizes[i];
  }
  \<close>
  \<open>bytes\<close> is a file size, an integer below \<open>2 ^ 53\<close>.

  \<^verbatim>\<open>Math.floor(Math.log(bytes) / Math.log(k))\<close> is computed on doubles. Below \<open>1024 ^ 4\<close>
  the quotient of the two rounded logarithms has the floor of the exact logarithm to base
  1024. From \<open>1024 ^ 4\<close> on the rounding can lift the quotient to the next integer before
  \<open>bytes\<close> reaches the next power of 1024 (at \<open>2 ^ 50 - 1\<close> the source computes 5), so
  there the index is what the engine computes: the parameter \<open>floorQuotient\<close>.

  The division by a power of two is exact: \<open>toFixed2\<close> is the number of hundredths
  nearest to \<open>bytes / 1024 ^ i\<close>, the larger one on a tie, as \<^verbatim>\<open>toFixed\<close> chooses, and
  \<open>showHundredths\<close> prints it as \<^verbatim>\<open>parseFloat\<close> followed by the conversion to a string
  does: without trailing zeros of the fraction.
\<close>

definition k :: nat where
  "k = 1024"

definition sizes :: "string list" where
  "sizes = [''Bytes'', ''KB'', ''MB'', ''GB'']"

definition unitIndex :: "(nat \<Rightarrow> nat) \<Rightarrow> nat \<Rightarrow> nat" where
  "unitIndex floorQuotient bytes =
     (if bytes < k ^ 4 then floorlog k bytes - 1 else floorQuotient bytes)"

definition toFixed2 :: "nat \<Rightarrow> nat \<Rightarrow> nat" where
  "toFixed2 bytes i = (200 * bytes + k ^ i) div (2 * k ^ i)"

definition digit :: "nat \<Rightarrow> char" where
  "digit d = ''0123456789'' ! d"

fun showNat :: "nat \<Rightarrow> string" where
  "showNat n = (if n < 10 then [digit n] else showNat (n div 10) @ [digit (n mod 10)])"

declare showNat.simps [simp del]

definition showHundredths :: "nat \<Rightarrow> string" where
  "showHundredths h =
     (if h mod 100 = 0 then showNat (h div 100)
      else if h mod 10 = 0 then showNat (h div 100) @ ''.'' @ [digit (h mod 100 div 10)]
      else showNat (h div 100) @ ''.'' @ [digit (h mod 100 div 10), digit (h mod 10)])"

text \<open>\<^verbatim>\<open>sizes[i]\<close>: an index past the end of the array reads \<^verbatim>\<open>undefined\<close>, which the
  concatenation turns into the text \<^verbatim>\<open>undefined\<close>.\<close>

definition sizesAt :: "nat \<Rightarrow> string" where
  "sizesAt i = (if i < length sizes then sizes ! i else ''undefined'')"

definition formatFileSize :: "(nat \<Rightarrow> nat) \<Rightarrow> nat \<Rightarrow> string" where
  "formatFileSize floorQuotient bytes =
     (if bytes = 0 then ''0 Bytes''
      else let i = unitIndex floorQuotient bytes
           in showHundredths (toFixed2 bytes i) @ '' '' @ sizesAt i)"







subsection \<open>Records, server state and environment\<close>

text \<open>One entry of \<^verbatim>\<open>data/files.json\<close>, with the fields that the upload route writes.
  \<open>downloadCount\<close> may be missing from an entry: the download route reads it as
  \<^verbatim>\<open>file.downloadCount || 0\<close>.\<close>

record fileRecord =
  id_f :: string
  filename :: string
  storedFilename :: string
  name :: string
  network :: string
  expiryDate :: jsval
  size_f :: string
  description :: string
  downloadCount :: "nat option"
  createdAt :: string

text \<open>The state that the routes share: the content of the data file (\<open>None\<close> when it
  cannot be read or parsed; a file that parses holds an array of records, as \<^verbatim>\<open>writeData\<close>
  writes it), the names of the files present in \<^verbatim>\<open>uploads\<close>, and
  \<^verbatim>\<open>process.env.ADMIN_TOKEN\<close>.\<close>

record server =
  dataFile :: "fileRecord list option"
  uploads :: "string set"
  ADMIN_TOKEN :: "string option"

text \<open>What a handler takes from outside the program: \<open>now\<close> is the time value of
  \<^verbatim>\<open>new Date()\<close> and \<open>isoNow\<close> its ISO string, \<open>dateValue v\<close> the time value of
  \<^verbatim>\<open>new Date(v)\<close> (\<open>None\<close> for an invalid date), \<open>uuid\<close> the result of \<^verbatim>\<open>uuidv4()\<close>,
  \<open>bcryptCompare c\<close> the result of \<^verbatim>\<open>bcrypt.compare(c, ADMIN_HASH)\<close> on a string;
  \<open>writeFails\<close> and \<open>removeFails\<close> tell whether \<^verbatim>\<open>fs.writeJson\<close> and \<^verbatim>\<open>fs.remove\<close> raise;
  \<open>floorLogQuotient\<close> is the engine's \<^verbatim>\<open>Math.floor(Math.log(bytes) / Math.log(1024))\<close>,
  which \<open>formatFileSize\<close> consults from \<open>1024 ^ 4\<close> bytes on.\<close>

record env =
  now :: int
  isoNow :: string
  dateValue :: "jsval \<Rightarrow> int option"
  uuid :: string
  bcryptCompare :: "string \<Rightarrow> bool"
  writeFails :: bool
  removeFails :: bool
  floorLogQuotient :: "nat \<Rightarrow> nat"

text \<open>\<^verbatim>\<open>req.file\<close> as multer sets it.\<close>

record upload =
  file_originalname :: string
  file_filename :: string
  file_size :: nat

text \<open>The request: \<^verbatim>\<open>req.headers['x-admin-token']\<close>, \<^verbatim>\<open>req.session\<close> (\<open>None\<close> is
  \<^verbatim>\<open>undefined\<close>), \<^verbatim>\<open>req.params.id\<close>, \<^verbatim>\<open>req.body\<close> and \<^verbatim>\<open>req.file\<close>.\<close>

record request =
  req_headers_x_admin_token :: "string option"
  req_session :: "(string \<times> jsval) list option"
  req_params_id :: string
  req_body :: "(string \<times> jsval) list"
  req_file :: "upload option"

subsection \<open>Responses\<close>

text \<open>The messages of the responses, in the order of the source:
  \<^item> \<open>NonAutorise\<close>: Non autorise. Veuillez vous connecter.
  \<^item> \<open>ErreurServeur\<close>: Erreur serveur.
  \<^item> \<open>FichierNonTrouve\<close>: Fichier non trouve.
  \<^item> \<open>FichierExpire\<close>: Ce fichier est expire.
  \<^item> \<open>FichierPhysiqueNonTrouve\<close>: Fichier physique non trouve.
  \<^item> \<open>ErreurTelechargement\<close>: Erreur lors du telechargement.
  \<^item> \<open>CodeInvalide\<close>: Code invalide. Le code doit contenir 14 chiffres.
  \<^item> \<open>ConnexionReussie\<close>: Connexion reussie.
  \<^item> \<open>CodeIncorrect\<close>: Code incorrect.
  \<^item> \<open>AucunFichier\<close>: Aucun fichier uploade.
  \<^item> \<open>ChampsRequis\<close>: Nom, reseau et date d'expiration requis.
  \<^item> \<open>DateFuture\<close>: La date d'expiration doit etre future.
  \<^item> \<open>FichierAjoute\<close>: Fichier ajoute avec succes.
  \<^item> \<open>ErreurAjout\<close>: Erreur lors de l'ajout du fichier.
  \<^item> \<open>FichierModifie\<close>: Fichier modifie avec succes.
  \<^item> \<open>ErreurModification\<close>: Erreur lors de la modification.
  \<^item> \<open>FichierTropVolumineux\<close>: Fichier trop volumineux. Maximum 50MB.
  \<^item> \<open>ErreurUpload e\<close>: Erreur lors de l'upload: followed by the message of \<open>e\<close>.
  \<^item> \<open>ErrMessage e\<close>: the message of the error \<open>e\<close>.
\<close>

datatype error =
    TypeError
  | MulterError string
  | FileFilterError

datatype message =
    NonAutorise
  | ErreurServeur
  | FichierNonTrouve
  | FichierExpire
  | FichierPhysiqueNonTrouve
  | ErreurTelechargement
  | CodeInvalide
  | ConnexionReussie
  | CodeIncorrect
  | AucunFichier
  | ChampsRequis
  | DateFuture
  | FichierAjoute
  | ErreurAjout
  | FichierModifie
  | ErreurModification
  | FichierTropVolumineux
  | ErreurUpload error
  | ErrMessage error

datatype payload =
    NoPayload
  | Files "jsval list"
  | Token string
  | File fileRecord

text \<open>\<open>Json st ok m p\<close> is \<^verbatim>\<open>res.status(st).json({ success: ok, message: m, ... })\<close> with
  the further property \<open>p\<close> of the body; \<open>SendFile stored shown\<close> is
  \<^verbatim>\<open>res.download\<close> of the stored file under the name \<open>shown\<close>.\<close>

datatype response =
    Json nat bool "message option" payload
  | SendFile string string

subsection \<open>readData and writeData\<close>

text \<open>\<^verbatim>\<open>readData\<close> catches every error of reading and parsing, logs it and returns the
  empty array. \<^verbatim>\<open>writeData\<close> logs the error of a failed write and raises it again
  (\<open>None\<close>); a write that succeeds replaces the content of the data file.\<close>

definition readData :: "server \<Rightarrow> fileRecord list" where
  "readData s = (case dataFile s of None \<Rightarrow> [] | Some files \<Rightarrow> files)"

definition writeData :: "env \<Rightarrow> fileRecord list \<Rightarrow> server \<Rightarrow> server option" where
  "writeData e files s = (if writeFails e then None else Some (s\<lparr>dataFile := Some files\<rparr>))"

subsection \<open>verifyAdminSession and the error middleware\<close>

text \<open>
  \<^verbatim>\<open>
  function verifyAdminSession(req, res, next) {
      const adminToken = req.headers['x-admin-token'] || req.session.adminToken;
      if (adminToken && adminToken === process.env.ADMIN_TOKEN) {
          next();
      } else {
          res.status(401).json({ success: false, message: 'Non autorise. ...' });
      }
  }
  \<close>
  The right operand of \<^verbatim>\<open>||\<close> is evaluated when the header is missing or empty; reading
  a property of \<^verbatim>\<open>undefined\<close> raises a TypeError.\<close>

datatype outcome =
    Next
  | Respond response
  | Raise error

definition envValue :: "string option \<Rightarrow> jsval" where
  "envValue v = (case v of None \<Rightarrow> JUndefined | Some t \<Rightarrow> JStr t)"

definition headerOrSession :: "request \<Rightarrow> jsval option" where
  "headerOrSession req =
     (if truthy (envValue (req_headers_x_admin_token req))
      then Some (envValue (req_headers_x_admin_token req))
      else (case req_session req of
              None \<Rightarrow> None
            | Some session \<Rightarrow> Some (getProp session ''adminToken'')))"

definition verifyAdminSession :: "request \<Rightarrow> server \<Rightarrow> outcome" where
  "verifyAdminSession req s =
     (case headerOrSession req of
        None \<Rightarrow> Raise TypeError
      | Some adminToken \<Rightarrow>
          if truthy adminToken \<and> adminToken = envValue (ADMIN_TOKEN s) then Next
          else Respond (Json 401 False (Some NonAutorise) NoPayload))"

text \<open>The middleware with four parameters that \<^verbatim>\<open>app.use\<close> registers last: Express
  passes it every error raised by a middleware or passed to \<^verbatim>\<open>next\<close>.\<close>

definition errorHandler :: "error \<Rightarrow> response" where
  "errorHandler err =
     (case err of
        MulterError code \<Rightarrow>
          if code = ''LIMIT_FILE_SIZE'' then Json 400 False (Some FichierTropVolumineux) NoPayload
          else Json 400 False (Some (ErreurUpload err)) NoPayload
      | _ \<Rightarrow> Json 400 False (Some (ErrMessage err)) NoPayload)"

text \<open>The application installs \<^verbatim>\<open>express.json()\<close> and \<^verbatim>\<open>express.static\<close> and no session
  middleware: \<^verbatim>\<open>req.session\<close> is \<^verbatim>\<open>undefined\<close> in every request that reaches a route.\<close>

definition incoming :: "string option \<Rightarrow> string \<Rightarrow> (string \<times> jsval) list \<Rightarrow> request" where
  "incoming token ident body =
     \<lparr>req_headers_x_admin_token = token, req_session = None, req_params_id = ident,
      req_body = body, req_file = None\<rparr>"

text \<open>A route registered as \<^verbatim>\<open>app.METHOD(path, verifyAdminSession, handler)\<close>.\<close>

definition protected ::
  "(request \<Rightarrow> server \<Rightarrow> response \<times> server) \<Rightarrow> request \<Rightarrow> server \<Rightarrow> response \<times> server" where
  "protected handler req s =
     (case verifyAdminSession req s of
        Next \<Rightarrow> handler req s
      | Respond r \<Rightarrow> (r, s)
      | Raise err \<Rightarrow> (errorHandler err, s))"

subsection \<open>GET /api/files\<close>

text \<open>
  \<^verbatim>\<open>
  const files = await readData();
  const now = new Date();
  const cleanedFiles = files.filter(file => {
      if (new Date(file.expiryDate) < now) { return true; }
      return true;
  });
  const publicFiles = cleanedFiles.map(file => ({
      id: file.id, name: file.name, network: file.network, expiryDate: file.expiryDate,
      size: file.size, downloadCount: file.downloadCount,
      isExpired: new Date(file.expiryDate) < now, description: file.description }));
  res.json({ success: true, files: publicFiles });
  \<close>\<close>

definition countValue :: "nat option \<Rightarrow> jsval" where
  "countValue c = (case c of None \<Rightarrow> JUndefined | Some n \<Rightarrow> JNum (int n))"

definition isExpired :: "env \<Rightarrow> fileRecord \<Rightarrow> bool" where
  "isExpired e file = js_lt (dateValue e (expiryDate file)) (Some (now e))"

definition publicFile :: "env \<Rightarrow> fileRecord \<Rightarrow> jsval" where
  "publicFile e file =
     JObj [(''id'', JStr (id_f file)),
           (''name'', JStr (name file)),
           (''network'', JStr (network file)),
           (''expiryDate'', expiryDate file),
           (''size'', JStr (size_f file)),
           (''downloadCount'', countValue (downloadCount file)),
           (''isExpired'', JBool (isExpired e file)),
           (''description'', JStr (description file))]"

definition getFiles :: "env \<Rightarrow> server \<Rightarrow> response \<times> server" where
  "getFiles e s =
     (let files = readData s;
          cleanedFiles = filter (\<lambda>file. if isExpired e file then True else True) files;
          publicFiles = map (publicFile e) cleanedFiles
      in (Json 200 True None (Files publicFiles), s))"

subsection \<open>GET /api/download/:id\<close>

text \<open>\<^verbatim>\<open>files.find(f => f.id === fileId)\<close> returns the first matching element of the array
  itself, so the assignment to \<^verbatim>\<open>file.downloadCount\<close> changes that element of \<^verbatim>\<open>files\<close>:
  \<open>assignFound\<close> applies the assignment to the first element that matches.\<close>

fun assignFound :: "('a \<Rightarrow> bool) \<Rightarrow> ('a \<Rightarrow> 'a) \<Rightarrow> 'a list \<Rightarrow> 'a list" where
  "assignFound P g [] = []"
| "assignFound P g (x # xs) = (if P x then g x # xs else x # assignFound P g xs)"

definition orZero :: "nat option \<Rightarrow> nat" where
  "orZero c = (case c of None \<Rightarrow> 0 | Some n \<Rightarrow> n)"

definition countDownload :: "fileRecord \<Rightarrow> fileRecord" where
  "countDownload file = file\<lparr>downloadCount := Some (orZero (downloadCount file) + 1)\<rparr>"

text \<open>
  \<^verbatim>\<open>
  const file = files.find(f => f.id === fileId);
  if (!file) return res.status(404)...;
  if (new Date(file.expiryDate) < new Date()) return res.status(403)...;
  const filePath = path.join(__dirname, 'uploads', file.storedFilename);
  if (!(await fs.pathExists(filePath))) return res.status(404)...;
  file.downloadCount = (file.downloadCount || 0) + 1;
  await writeData(files);
  res.download(filePath, file.filename, (err) => { ... });
  \<close>
  An error of \<^verbatim>\<open>writeData\<close> reaches the \<^verbatim>\<open>catch\<close> of the handler, which answers 500.\<close>

definition download :: "env \<Rightarrow> string \<Rightarrow> server \<Rightarrow> response \<times> server" where
  "download e fileId s =
     (let files = readData s
      in case find (\<lambda>f. id_f f = fileId) files of
           None \<Rightarrow> (Json 404 False (Some FichierNonTrouve) NoPayload, s)
         | Some file \<Rightarrow>
             if isExpired e file then (Json 403 False (Some FichierExpire) NoPayload, s)
             else if storedFilename file \<notin> uploads s
               then (Json 404 False (Some FichierPhysiqueNonTrouve) NoPayload, s)
             else (case writeData e (assignFound (\<lambda>f. id_f f = fileId) countDownload files) s of
                     None \<Rightarrow> (Json 500 False (Some ErreurServeur) NoPayload, s)
                   | Some s' \<Rightarrow> (SendFile (storedFilename file) (filename file), s')))"

text \<open>The callback of \<^verbatim>\<open>res.download\<close>, called when the transfer ends: on an error it
  logs, and answers 500 when no header has been sent yet. It writes nothing.\<close>

definition downloadCallback :: "bool \<Rightarrow> bool \<Rightarrow> server \<Rightarrow> response option \<times> server" where
  "downloadCallback err headersSent s =
     (if err \<and> \<not> headersSent then (Some (Json 500 False (Some ErreurTelechargement) NoPayload), s)
      else (None, s))"

text \<open>Downloads of one id, one after the other; each has its own environment. The run
  stops at the first download that does not start a transfer.\<close>

fun downloads :: "env list \<Rightarrow> string \<Rightarrow> server \<Rightarrow> server option" where
  "downloads [] fileId s = Some s"
| "downloads (e # es) fileId s =
     (case download e fileId s of
        (SendFile stored shown, s') \<Rightarrow> downloads es fileId s'
      | (Json st ok m p, s') \<Rightarrow> None)"

subsection \<open>POST /api/admin/login\<close>

text \<open>\<^verbatim>\<open>code.length\<close>: the number of code units of a string, the number of elements of an
  array, the property \<^verbatim>\<open>length\<close> of an object, \<^verbatim>\<open>undefined\<close> on a number or a boolean.
  It is never read on \<^verbatim>\<open>undefined\<close> or \<^verbatim>\<open>null\<close>: the test \<^verbatim>\<open>!code\<close> comes first.\<close>

fun lengthOf :: "jsval \<Rightarrow> jsval" where
  "lengthOf (JStr c) = JNum (int (length c))"
| "lengthOf (JArr xs) = JNum (int (length xs))"
| "lengthOf (JObj obj) = getProp obj ''length''"
| "lengthOf _ = JUndefined"

text \<open>\<^verbatim>\<open>verifyAdminCode\<close> returns what \<^verbatim>\<open>bcrypt.compare\<close> returns, and \<^verbatim>\<open>false\<close> when it
  raises, as it does on a value that is not a string.\<close>

definition verifyAdminCode :: "env \<Rightarrow> jsval \<Rightarrow> bool" where
  "verifyAdminCode e code = (case code of JStr c \<Rightarrow> bcryptCompare e c | _ \<Rightarrow> False)"

text \<open>
  \<^verbatim>\<open>
  const { code } = req.body;
  if (!code || code.length !== 14) return res.status(400)...;
  const isValid = await verifyAdminCode(code);
  if (isValid) {
      const sessionToken = uuidv4();
      process.env.ADMIN_TOKEN = sessionToken;
      res.json({ success: true, message: 'Connexion reussie.', token: sessionToken });
  } else {
      res.status(401).json({ success: false, message: 'Code incorrect.' });
  }
  \<close>\<close>

definition login :: "env \<Rightarrow> request \<Rightarrow> server \<Rightarrow> response \<times> server" where
  "login e req s =
     (let code = getProp (req_body req) ''code''
      in if \<not> truthy code \<or> lengthOf code \<noteq> JNum 14
           then (Json 400 False (Some CodeInvalide) NoPayload, s)
         else if verifyAdminCode e code
           then (let sessionToken = uuid e
                 in (Json 200 True (Some ConnexionReussie) (Token sessionToken),
                     s\<lparr>ADMIN_TOKEN := Some sessionToken\<rparr>))
         else (Json 401 False (Some CodeIncorrect) NoPayload, s))"

subsection \<open>POST /api/admin/files\<close>

text \<open>Before the handler runs, multer has written the bytes of an accepted file under
  \<^verbatim>\<open>req.file.filename\<close>. \<^verbatim>\<open>fs.remove\<close> deletes a stored file, or raises (\<open>None\<close>).\<close>

definition storeUpload :: "upload \<Rightarrow> server \<Rightarrow> server" where
  "storeUpload file s = s\<lparr>uploads := insert (file_filename file) (uploads s)\<rparr>"

definition fsRemove :: "env \<Rightarrow> string \<Rightarrow> server \<Rightarrow> server option" where
  "fsRemove e stored s =
     (if removeFails e then None else Some (s\<lparr>uploads := uploads s - {stored}\<rparr>))"

text \<open>\<^verbatim>\<open>description ? description.trim() : ''\<close>\<close>

definition trimOrEmpty :: "jsval \<Rightarrow> string option" where
  "trimOrEmpty d = (if truthy d then callTrim d else Some [])"

text \<open>
  \<^verbatim>\<open>
  if (!req.file) return res.status(400)...;
  const { name, network, expiryDate, description } = req.body;
  if (!name || !network || !expiryDate) {
      await fs.remove(path.join(__dirname, 'uploads', req.file.filename));
      return res.status(400)...;
  }
  if (new Date(expiryDate) <= new Date()) {
      await fs.remove(path.join(__dirname, 'uploads', req.file.filename));
      return res.status(400)...;
  }
  const files = await readData();
  const newFile = { id: uuidv4(), filename: req.file.originalname,
      storedFilename: req.file.filename, name: name.trim(), network: network.trim(),
      expiryDate: expiryDate, size: formatFileSize(req.file.size),
      description: description ? description.trim() : '', downloadCount: 0,
      createdAt: new Date().toISOString() };
  files.push(newFile);
  await writeData(files);
  res.json({ success: true, message: 'Fichier ajoute avec succes.', file: newFile });
  \<close>
  A TypeError of \<^verbatim>\<open>trim\<close> and an error of \<^verbatim>\<open>fs.remove\<close> or \<^verbatim>\<open>writeData\<close> reach the
  \<^verbatim>\<open>catch\<close> of the handler, which answers 500.\<close>

definition postFile :: "env \<Rightarrow> request \<Rightarrow> server \<Rightarrow> response \<times> server" where
  "postFile e req s =
     (case req_file req of
        None \<Rightarrow> (Json 400 False (Some AucunFichier) NoPayload, s)
      | Some file \<Rightarrow>
          let name' = getProp (req_body req) ''name'';
              network' = getProp (req_body req) ''network'';
              expiryDate' = getProp (req_body req) ''expiryDate'';
              description' = getProp (req_body req) ''description''
          in if \<not> truthy name' \<or> \<not> truthy network' \<or> \<not> truthy expiryDate'
               then (case fsRemove e (file_filename file) s of
                       None \<Rightarrow> (Json 500 False (Some ErreurAjout) NoPayload, s)
                     | Some s' \<Rightarrow> (Json 400 False (Some ChampsRequis) NoPayload, s'))
             else if js_le (dateValue e expiryDate') (Some (now e))
               then (case fsRemove e (file_filename file) s of
                       None \<Rightarrow> (Json 500 False (Some ErreurAjout) NoPayload, s)
                     | Some s' \<Rightarrow> (Json 400 False (Some DateFuture) NoPayload, s'))
             else
               let files = readData s
               in case (callTrim name', callTrim network', trimOrEmpty description') of
                    (Some n, Some nw, Some d) \<Rightarrow>
                      let newFile =
                            \<lparr>id_f = uuid e,
                             filename = file_originalname file,
                             storedFilename = file_filename file,
                             name = n,
                             network = nw,
                             expiryDate = expiryDate',
                             size_f = formatFileSize (floorLogQuotient e) (file_size file),
                             description = d,
                             downloadCount = Some 0,
                             createdAt = isoNow e\<rparr>
                      in (case writeData e (files @ [newFile]) s of
                            None \<Rightarrow> (Json 500 False (Some ErreurAjout) NoPayload, s)
                          | Some s' \<Rightarrow> (Json 200 True (Some FichierAjoute) (File newFile), s'))
                  | _ \<Rightarrow> (Json 500 False (Some ErreurAjout) NoPayload, s))"

subsection \<open>PUT /api/admin/files/:id\<close>

text \<open>\<^verbatim>\<open>files.findIndex(f => f.id === fileId)\<close>; \<open>None\<close> is the result \<^verbatim>\<open>-1\<close>.\<close>

fun findIndex :: "('a \<Rightarrow> bool) \<Rightarrow> 'a list \<Rightarrow> nat option" where
  "findIndex P [] = None"
| "findIndex P (x # xs) = (if P x then Some 0 else map_option Suc (findIndex P xs))"

text \<open>
  \<^verbatim>\<open>
  const { name, network, expiryDate, description } = req.body;
  const files = await readData();
  const fileIndex = files.findIndex(f => f.id === fileId);
  if (fileIndex === -1) return res.status(404)...;
  if (!name || !network || !expiryDate) return res.status(400)...;
  if (new Date(expiryDate) <= new Date()) return res.status(400)...;
  files[fileIndex] = { ...files[fileIndex], name: name.trim(), network: network.trim(),
      expiryDate: expiryDate, description: description ? description.trim() : '' };
  await writeData(files);
  res.json({ success: true, message: 'Fichier modifie avec succes.', file: files[fileIndex] });
  \<close>\<close>

definition putFile :: "env \<Rightarrow> request \<Rightarrow> server \<Rightarrow> response \<times> server" where
  "putFile e req s =
     (let fileId = req_params_id req;
          name' = getProp (req_body req) ''name'';
          network' = getProp (req_body req) ''network'';
          expiryDate' = getProp (req_body req) ''expiryDate'';
          description' = getProp (req_body req) ''description'';
          files = readData s
      in case findIndex (\<lambda>f. id_f f = fileId) files of
           None \<Rightarrow> (Json 404 False (Some FichierNonTrouve) NoPayload, s)
         | Some fileIndex \<Rightarrow>
             if \<not> truthy name' \<or> \<not> truthy network' \<or> \<not> truthy expiryDate'
               then (Json 400 False (Some ChampsRequis) NoPayload, s)
             else if js_le (dateValue e expiryDate') (Some (now e))
               then (Json 400 False (Some DateFuture) NoPayload, s)
             else
               case (callTrim name', callTrim network', trimOrEmpty description') of
                 (Some n, Some nw, Some d) \<Rightarrow>
                   let updated = (files ! fileIndex)
                         \<lparr>name := n, network := nw, expiryDate := expiryDate', description := d\<rparr>
                   in (case writeData e (files[fileIndex := updated]) s of
                         None \<Rightarrow> (Json 500 False (Some ErreurModification) NoPayload, s)
                       | Some s' \<Rightarrow> (Json 200 True (Some FichierModifie) (File updated), s'))
               | _ \<Rightarrow> (Json 500 False (Some ErreurModification) NoPayload, s))"

subsection \<open>Sample data\<close>

text \<open>An environment, a record and a state for evaluating the routes. \<open>sampleDate\<close>
  gives the time values of \<^verbatim>\<open>new Date(v)\<close> on the values used: a number in range is its
  own time value, a date-only ISO string is midnight UTC of that day. The sizes used are
  below \<open>1024 ^ 4\<close>, where \<open>floorLogQuotient\<close> is not consulted.\<close>

definition sampleDate :: "jsval \<Rightarrow> int option" where
  "sampleDate v =
     (case v of
        JNum n \<Rightarrow> (if \<bar>n\<bar> \<le> 8640000000000000 then Some n else None)
      | JStr d \<Rightarrow>
          (if d = ''2020-01-01'' then Some 1577836800000
           else if d = ''2030-01-01'' then Some 1893456000000
           else None)
      | _ \<Rightarrow> None)"

definition sampleEnv :: env where
  "sampleEnv =
     \<lparr>now = 1762128000000,
      isoNow = ''2025-11-03T00:00:00.000Z'',
      dateValue = sampleDate,
      uuid = ''1b9d6bcd-bbfd-4b2d-9b5d-ab8dfbbd4bed'',
      bcryptCompare = (\<lambda>c. c = ''30292812046102''),
      writeFails = False,
      removeFails = False,
      floorLogQuotient = (\<lambda>bytes. floorlog 1024 bytes - 1)\<rparr>"

definition sampleFile :: fileRecord where
  "sampleFile =
     \<lparr>id_f = ''f1'',
      filename = ''a.ovpn'',
      storedFilename = ''1700000000000-f1.ovpn'',
      name = ''Net1'',
      network = ''Home'',
      expiryDate = JStr ''2030-01-01'',
      size_f = ''1.5 KB'',
      description = [],
      downloadCount = Some 0,
      createdAt = ''2025-01-01T00:00:00.000Z''\<rparr>"

text \<open>\<open>sampleExpired\<close> has expired and its bytes are stored; the bytes of
  \<open>sampleMissing\<close> are not in \<^verbatim>\<open>uploads\<close>.\<close>

definition sampleExpired :: fileRecord where
  "sampleExpired =
     sampleFile\<lparr>id_f := ''f2'', storedFilename := ''1600000000000-f2.ovpn'',
                expiryDate := JStr ''2020-01-01''\<rparr>"

definition sampleMissing :: fileRecord where
  "sampleMissing = sampleFile\<lparr>id_f := ''f3'', storedFilename := ''1650000000000-f3.ovpn''\<rparr>"

definition sampleServer :: server where
  "sampleServer =
     \<lparr>dataFile = Some [sampleFile, sampleExpired, sampleMissing],
      uploads = {''1700000000000-f1.ovpn'', ''1600000000000-f2.ovpn''},
      ADMIN_TOKEN = Some ''tok-A''\<rparr>"

definition sampleUpload :: upload where
  "sampleUpload =
     \<lparr>file_originalname = ''b.ovpn'', file_filename = ''1762128000000-b.ovpn'', file_size = 1536\<rparr>"

text \<open>An upload request that passes validation, and the record that the upload route
  makes of it in \<open>sampleEnv\<close>.\<close>

definition sampleRequest :: request where
  "sampleRequest =
     (incoming (Some ''tok-A'') []
        [(''name'', JStr '' Net2 ''), (''network'', JStr ''Home''),
         (''expiryDate'', JStr ''2030-01-01'')])
     \<lparr>req_file := Some sampleUpload\<rparr>"

definition sampleNew :: fileRecord where
  "sampleNew =
     \<lparr>id_f = ''1b9d6bcd-bbfd-4b2d-9b5d-ab8dfbbd4bed'',
      filename = ''b.ovpn'',
      storedFilename = ''1762128000000-b.ovpn'',
      name = ''Net2'',
      network = ''Home'',
      expiryDate = JStr ''2030-01-01'',
      size_f = ''1.5 KB'',
      description = [],
      downloadCount = Some 0,
      createdAt = ''2025-11-03T00:00:00.000Z''\<rparr>"

section \<open>Properties\<close>

subsection \<open>The size formatter\<close>



lemma unitIndex_eqI:
  assumes "1024 ^ i \<le> bytes" "bytes < 1024 ^ Suc i" "i < 4"
  shows "unitIndex q bytes = i"
proof -
  have "floorlog 1024 bytes \<le> Suc i"
    using assms(2) by (intro floorlog_leI) simp_all
  moreover have "Suc i \<le> floorlog 1024 bytes"
    using assms(1) by (intro floorlog_ge_SucI) simp_all
  moreover have "(1024::nat) ^ Suc i \<le> 1024 ^ 4"
    using assms(3) by (intro power_increasing) simp_all
  ultimately show ?thesis
    using assms(2) unfolding unitIndex_def k_def by simp
qed





lemma showNat_digit: "n < 10 \<Longrightarrow> showNat n = [digit n]"
  by (simp add: showNat.simps)

lemma showNat_step: "10 \<le> n \<Longrightarrow> showNat n = showNat (n div 10) @ [digit (n mod 10)]"
  by (subst showNat.simps) simp








lemma unitIndex_1536: "unitIndex q 1536 = 1"
  by (rule unitIndex_eqI) simp_all


lemmas format_eval =
  formatFileSize_def toFixed2_def k_def showHundredths_def showNat_digit showNat_step digit_def
  sizesAt_def sizes_def

lemma formatFileSize_1536: "formatFileSize q 1536 = ''1.5 KB''"
  by (simp add: format_eval unitIndex_1536)






subsection \<open>Authorization\<close>

text \<open>A request that presents a non-empty token passes exactly when the token is the one
  recorded in \<^verbatim>\<open>process.env.ADMIN_TOKEN\<close>; otherwise it is answered 401. This covers the
  state in which no token has been issued.\<close>

lemma verifyAdminSession_presented:
  assumes "req_headers_x_admin_token req = Some t" "t \<noteq> []"
  shows "verifyAdminSession req s =
           (if ADMIN_TOKEN s = Some t then Next
            else Respond (Json 401 False (Some NonAutorise) NoPayload))"
  using assms
  by (cases "ADMIN_TOKEN s") (auto simp: verifyAdminSession_def headerOrSession_def envValue_def)

text \<open>
  C1: every request to a protected route whose token is not the recorded one is denied
  with status 401, also when no token is presented. In the source a request without the
  header \<^verbatim>\<open>x-admin-token\<close>, or with an empty one, makes \<^verbatim>\<open>verifyAdminSession\<close> read
  \<^verbatim>\<open>req.session.adminToken\<close>, where \<^verbatim>\<open>req.session\<close> is \<^verbatim>\<open>undefined\<close>: the TypeError goes to
  the error middleware, and the request is denied with status 400 and the message of the
  TypeError, not with 401.
\<close>

theorem verifyAdminSession_missing_token:
  "verifyAdminSession (incoming None ident body) s = Raise TypeError \<and>
   protected handler (incoming None ident body) s =
     (Json 400 False (Some (ErrMessage TypeError)) NoPayload, s) \<and>
   protected handler (incoming (Some []) ident body) s =
     (Json 400 False (Some (ErrMessage TypeError)) NoPayload, s)"
  by (simp add: protected_def verifyAdminSession_def headerOrSession_def envValue_def
      incoming_def errorHandler_def)

subsection \<open>Login\<close>

text \<open>
  C7: a login request without a code, or with a code whose length is not 14, is answered
  400 whatever \<^verbatim>\<open>bcrypt.compare\<close> would say; a code of 14 characters that does not verify
  is answered 401, without a token and without a change of state; a code that verifies is
  answered with the token that \<^verbatim>\<open>uuidv4\<close> returned, which is recorded as the admin token:
  from then on a request presenting a token is let through exactly when it presents this
  one, so a token issued before is refused.
\<close>

theorem login_outcomes:
  "(getProp (req_body req) ''code'' = JUndefined \<or>
    (\<exists>c. getProp (req_body req) ''code'' = JStr c \<and> length c \<noteq> 14)
    \<longrightarrow> login e req s = (Json 400 False (Some CodeInvalide) NoPayload, s)) \<and>
   (\<forall>c. getProp (req_body req) ''code'' = JStr c \<and> length c = 14 \<and> \<not> bcryptCompare e c
    \<longrightarrow> login e req s = (Json 401 False (Some CodeIncorrect) NoPayload, s)) \<and>
   (\<forall>c. getProp (req_body req) ''code'' = JStr c \<and> length c = 14 \<and> bcryptCompare e c
    \<longrightarrow> login e req s =
          (Json 200 True (Some ConnexionReussie) (Token (uuid e)), s\<lparr>ADMIN_TOKEN := Some (uuid e)\<rparr>) \<and>
        (\<forall>r t. req_headers_x_admin_token r = Some t \<and> t \<noteq> []
           \<longrightarrow> verifyAdminSession r (snd (login e req s)) =
                 (if t = uuid e then Next
                  else Respond (Json 401 False (Some NonAutorise) NoPayload))))"
proof (intro conjI impI allI)
  assume "getProp (req_body req) ''code'' = JUndefined \<or>
    (\<exists>c. getProp (req_body req) ''code'' = JStr c \<and> length c \<noteq> 14)"
  then show "login e req s = (Json 400 False (Some CodeInvalide) NoPayload, s)"
    by (auto simp: login_def)
next
  fix c
  assume "getProp (req_body req) ''code'' = JStr c \<and> length c = 14 \<and> \<not> bcryptCompare e c"
  then show "login e req s = (Json 401 False (Some CodeIncorrect) NoPayload, s)"
    by (auto simp: login_def verifyAdminCode_def Let_def)
next
  fix c
  assume ok: "getProp (req_body req) ''code'' = JStr c \<and> length c = 14 \<and> bcryptCompare e c"
  then show *: "login e req s =
          (Json 200 True (Some ConnexionReussie) (Token (uuid e)), s\<lparr>ADMIN_TOKEN := Some (uuid e)\<rparr>)"
    by (auto simp: login_def verifyAdminCode_def Let_def)
  fix r :: request and t
  assume "req_headers_x_admin_token r = Some t \<and> t \<noteq> []"
  then show "verifyAdminSession r (snd (login e req s)) =
                 (if t = uuid e then Next
                  else Respond (Json 401 False (Some NonAutorise) NoPayload))"
    using * by (auto simp: verifyAdminSession_presented)
qed

theorem login_outcomes_witness:
  "login sampleEnv (incoming None [] [(''code'', JStr ''123'')]) sampleServer =
     (Json 400 False (Some CodeInvalide) NoPayload, sampleServer) \<and>
   login sampleEnv (incoming None [] [(''code'', JStr ''00000000000000'')]) sampleServer =
     (Json 401 False (Some CodeIncorrect) NoPayload, sampleServer) \<and>
   login sampleEnv (incoming None [] [(''code'', JStr ''30292812046102'')]) sampleServer =
     (Json 200 True (Some ConnexionReussie) (Token ''1b9d6bcd-bbfd-4b2d-9b5d-ab8dfbbd4bed''),
      sampleServer\<lparr>ADMIN_TOKEN := Some ''1b9d6bcd-bbfd-4b2d-9b5d-ab8dfbbd4bed''\<rparr>) \<and>
   verifyAdminSession (incoming (Some ''tok-A'') [] []) sampleServer = Next \<and>
   verifyAdminSession (incoming (Some ''tok-A'') [] [])
     (snd (login sampleEnv (incoming None [] [(''code'', JStr ''30292812046102'')]) sampleServer)) =
     Respond (Json 401 False (Some NonAutorise) NoPayload)"
proof -
  let ?short = "incoming None [] [(''code'', JStr ''123'')]"
  let ?wrong = "incoming None [] [(''code'', JStr ''00000000000000'')]"
  let ?right = "incoming None [] [(''code'', JStr ''30292812046102'')]"
  have short: "\<exists>c. getProp (req_body ?short) ''code'' = JStr c \<and> length c \<noteq> 14"
    by (simp add: getProp_def incoming_def)
  have wrong: "getProp (req_body ?wrong) ''code'' = JStr ''00000000000000'' \<and>
      length ''00000000000000'' = 14 \<and> \<not> bcryptCompare sampleEnv ''00000000000000''"
    by (simp add: getProp_def incoming_def sampleEnv_def)
  have right: "getProp (req_body ?right) ''code'' = JStr ''30292812046102'' \<and>
      length ''30292812046102'' = 14 \<and> bcryptCompare sampleEnv ''30292812046102''"
    by (simp add: getProp_def incoming_def sampleEnv_def)
  have old: "req_headers_x_admin_token (incoming (Some ''tok-A'') [] []) = Some ''tok-A'' \<and> ''tok-A'' \<noteq> []"
    by (simp add: incoming_def)
  have before: "verifyAdminSession (incoming (Some ''tok-A'') [] []) sampleServer = Next"
    using old by (simp add: verifyAdminSession_presented sampleServer_def)
  from login_outcomes[of ?short sampleEnv sampleServer] short
  have 1: "login sampleEnv ?short sampleServer = (Json 400 False (Some CodeInvalide) NoPayload, sampleServer)"
    by blast
  from login_outcomes[of ?wrong sampleEnv sampleServer] wrong
  have 2: "login sampleEnv ?wrong sampleServer = (Json 401 False (Some CodeIncorrect) NoPayload, sampleServer)"
    by blast
  from login_outcomes[of ?right sampleEnv sampleServer] right
  have 3: "login sampleEnv ?right sampleServer =
          (Json 200 True (Some ConnexionReussie) (Token (uuid sampleEnv)),
           sampleServer\<lparr>ADMIN_TOKEN := Some (uuid sampleEnv)\<rparr>)"
    and 4: "\<forall>r t. req_headers_x_admin_token r = Some t \<and> t \<noteq> []
           \<longrightarrow> verifyAdminSession r (snd (login sampleEnv ?right sampleServer)) =
                 (if t = uuid sampleEnv then Next
                  else Respond (Json 401 False (Some NonAutorise) NoPayload))"
    by blast+
  from 4 old have 5: "verifyAdminSession (incoming (Some ''tok-A'') [] [])
     (snd (login sampleEnv ?right sampleServer)) =
       (if ''tok-A'' = uuid sampleEnv then Next
                  else Respond (Json 401 False (Some NonAutorise) NoPayload))"
    by blast
  have u: "uuid sampleEnv = ''1b9d6bcd-bbfd-4b2d-9b5d-ab8dfbbd4bed''"
    by (simp add: sampleEnv_def)
  show ?thesis
    using 1 2 3 5 before unfolding u by simp
qed


subsection \<open>Listing\<close>

lemma js_lt_iff: "js_lt a (Some n) = (\<exists>t. a = Some t \<and> t < n)"
  by (cases a) simp_all

lemma js_le_iff: "js_le a (Some n) = (\<exists>t. a = Some t \<and> t \<le> n)"
  by (cases a) simp_all

lemma isExpired_iff:
  "isExpired e file = (\<exists>t. dateValue e (expiryDate file) = Some t \<and> t < now e)"
  by (simp add: isExpired_def js_lt_iff)

lemma readData_sampleServer: "readData sampleServer = [sampleFile, sampleExpired, sampleMissing]"
  by (simp add: readData_def sampleServer_def)

text \<open>\<^verbatim>\<open>files.push(newFile)\<close>: an upload that succeeds puts its record after the others.\<close>

lemma postFile_appends:
  assumes "postFile e req s = (Json st ok m (File r), s')"
  shows "readData s' = readData s @ [r]"
  using assms
  by (auto simp: postFile_def Let_def writeData_def fsRemove_def readData_def
      split: option.splits if_splits)

lemma postFile_sample:
  "postFile sampleEnv sampleRequest (storeUpload sampleUpload sampleServer) =
     (Json 200 True (Some FichierAjoute) (File sampleNew),
      (storeUpload sampleUpload sampleServer)
        \<lparr>dataFile := Some [sampleFile, sampleExpired, sampleMissing, sampleNew]\<rparr>)"
  by (simp add: postFile_def sampleRequest_def incoming_def getProp_def sampleEnv_def
      sampleDate_def trimOrEmpty_def trim_def isWhiteSpace_def writeData_def Let_def
      readData_def storeUpload_def sampleServer_def sampleUpload_def sampleNew_def
      formatFileSize_1536)

text \<open>
  C2: the listing answers with one object for every stored record, expired or not, in the
  order of storage, and leaves the state as it is. No object has a property
  \<^verbatim>\<open>storedFilename\<close>; the other properties are those of the record, and \<^verbatim>\<open>isExpired\<close> is
  true exactly when the expiry date is a valid date strictly before the current time.
  The order of storage is the order of insertion: an upload that succeeds stores its
  record after the records already there.
\<close>

theorem getFiles_lists_every_record:
  "(\<exists>publicFiles.
     getFiles e s = (Json 200 True None (Files publicFiles), s) \<and>
     length publicFiles = length (readData s) \<and>
     (\<forall>i<length (readData s).
        \<exists>obj. publicFiles ! i = JObj obj \<and>
              ''storedFilename'' \<notin> fst ` set obj \<and>
              getProp obj ''id'' = JStr (id_f (readData s ! i)) \<and>
              getProp obj ''name'' = JStr (name (readData s ! i)) \<and>
              getProp obj ''network'' = JStr (network (readData s ! i)) \<and>
              getProp obj ''expiryDate'' = expiryDate (readData s ! i) \<and>
              getProp obj ''size'' = JStr (size_f (readData s ! i)) \<and>
              getProp obj ''downloadCount'' = countValue (downloadCount (readData s ! i)) \<and>
              getProp obj ''description'' = JStr (description (readData s ! i)) \<and>
              getProp obj ''isExpired'' =
                JBool (\<exists>t. dateValue e (expiryDate (readData s ! i)) = Some t \<and> t < now e))) \<and>
   (\<forall>e' req st ok m r s'. postFile e' req s = (Json st ok m (File r), s')
      \<longrightarrow> readData s' = readData s @ [r])"
proof -
  have "getFiles e s = (Json 200 True None (Files (map (publicFile e) (readData s))), s)"
    by (simp add: getFiles_def)
  moreover have "\<exists>obj. publicFile e f = JObj obj \<and>
              ''storedFilename'' \<notin> fst ` set obj \<and>
              getProp obj ''id'' = JStr (id_f f) \<and>
              getProp obj ''name'' = JStr (name f) \<and>
              getProp obj ''network'' = JStr (network f) \<and>
              getProp obj ''expiryDate'' = expiryDate f \<and>
              getProp obj ''size'' = JStr (size_f f) \<and>
              getProp obj ''downloadCount'' = countValue (downloadCount f) \<and>
              getProp obj ''description'' = JStr (description f) \<and>
              getProp obj ''isExpired'' =
                JBool (\<exists>t. dateValue e (expiryDate f) = Some t \<and> t < now e)" for f
    by (simp add: publicFile_def getProp_def isExpired_iff)
  ultimately show ?thesis
    using postFile_appends by auto
qed

theorem getFiles_lists_every_record_witness:
  "\<exists>publicFiles obj.
     getFiles sampleEnv sampleServer = (Json 200 True None (Files publicFiles), sampleServer) \<and>
     length publicFiles = 3 \<and>
     publicFiles ! 1 = JObj obj \<and>
     ''storedFilename'' \<notin> fst ` set obj \<and>
     getProp obj ''id'' = JStr ''f2'' \<and>
     getProp obj ''isExpired'' = JBool True \<and>
     readData (snd (postFile sampleEnv sampleRequest (storeUpload sampleUpload sampleServer))) =
       [sampleFile, sampleExpired, sampleMissing, sampleNew]"
proof -
  from getFiles_lists_every_record[of sampleEnv sampleServer]
  obtain publicFiles where
    res: "getFiles sampleEnv sampleServer = (Json 200 True None (Files publicFiles), sampleServer)"
    and len: "length publicFiles = length (readData sampleServer)"
    and each: "\<forall>i<length (readData sampleServer).
        \<exists>obj. publicFiles ! i = JObj obj \<and>
              ''storedFilename'' \<notin> fst ` set obj \<and>
              getProp obj ''id'' = JStr (id_f (readData sampleServer ! i)) \<and>
              getProp obj ''name'' = JStr (name (readData sampleServer ! i)) \<and>
              getProp obj ''network'' = JStr (network (readData sampleServer ! i)) \<and>
              getProp obj ''expiryDate'' = expiryDate (readData sampleServer ! i) \<and>
              getProp obj ''size'' = JStr (size_f (readData sampleServer ! i)) \<and>
              getProp obj ''downloadCount'' = countValue (downloadCount (readData sampleServer ! i)) \<and>
              getProp obj ''description'' = JStr (description (readData sampleServer ! i)) \<and>
              getProp obj ''isExpired'' =
                JBool (\<exists>t. dateValue sampleEnv (expiryDate (readData sampleServer ! i)) = Some t \<and>
                           t < now sampleEnv)"
    by blast
  have "1 < length (readData sampleServer)"
    by (simp add: readData_sampleServer)
  with each obtain obj where
    obj: "publicFiles ! 1 = JObj obj" "''storedFilename'' \<notin> fst ` set obj"
      "getProp obj ''id'' = JStr (id_f (readData sampleServer ! 1))"
      "getProp obj ''isExpired'' =
         JBool (\<exists>t. dateValue sampleEnv (expiryDate (readData sampleServer ! 1)) = Some t \<and>
                    t < now sampleEnv)"
    by blast
  have "id_f (readData sampleServer ! 1) = ''f2''"
    by (simp add: readData_sampleServer sampleExpired_def)
  moreover have "\<exists>t. dateValue sampleEnv (expiryDate (readData sampleServer ! 1)) = Some t \<and>
                    t < now sampleEnv"
    by (simp add: readData_sampleServer sampleExpired_def sampleEnv_def sampleDate_def)
  moreover have "readData (snd (postFile sampleEnv sampleRequest
      (storeUpload sampleUpload sampleServer))) =
      [sampleFile, sampleExpired, sampleMissing, sampleNew]"
  proof -
    let ?stored = "storeUpload sampleUpload sampleServer"
    from getFiles_lists_every_record[of sampleEnv ?stored] postFile_sample
    have "readData (?stored\<lparr>dataFile := Some [sampleFile, sampleExpired, sampleMissing, sampleNew]\<rparr>) =
        readData ?stored @ [sampleNew]"
      by blast
    moreover have "readData ?stored = [sampleFile, sampleExpired, sampleMissing]"
      by (simp add: readData_def storeUpload_def sampleServer_def)
    ultimately show ?thesis
      by (simp add: postFile_sample)
  qed
  ultimately show ?thesis
    using res len obj by (simp add: readData_sampleServer)
qed


subsection \<open>Download\<close>

lemma find_assignFound:
  assumes "\<And>x. P x \<Longrightarrow> P (g x)"
  shows "find P (assignFound P g xs) = map_option g (find P xs)"
  using assms by (induction xs) simp_all

lemma sample_finds:
  "find (\<lambda>f. id_f f = ''f1'') (readData sampleServer) = Some sampleFile"
  "find (\<lambda>f. id_f f = ''f2'') (readData sampleServer) = Some sampleExpired"
  "find (\<lambda>f. id_f f = ''f3'') (readData sampleServer) = Some sampleMissing"
  "''f9'' \<notin> id_f ` set (readData sampleServer)"
  by (simp_all add: readData_sampleServer sampleFile_def sampleExpired_def sampleMissing_def)

text \<open>
  C3: a download of an id that no record has is answered 404; when the first record with
  the id has an expiry date strictly before the current time the answer is 403, whether
  the bytes are stored or not, and no file is sent; when it has not expired and its bytes
  are not in \<^verbatim>\<open>uploads\<close> the answer is 404. In all three cases the state is unchanged.
\<close>

theorem download_errors:
  "(fileId \<notin> id_f ` set (readData s)
    \<longrightarrow> download e fileId s = (Json 404 False (Some FichierNonTrouve) NoPayload, s)) \<and>
   (\<forall>f. find (\<lambda>f. id_f f = fileId) (readData s) = Some f \<longrightarrow>
      ((\<exists>t. dateValue e (expiryDate f) = Some t \<and> t < now e)
       \<longrightarrow> download e fileId s = (Json 403 False (Some FichierExpire) NoPayload, s)) \<and>
      (\<not> (\<exists>t. dateValue e (expiryDate f) = Some t \<and> t < now e) \<and> storedFilename f \<notin> uploads s
       \<longrightarrow> download e fileId s = (Json 404 False (Some FichierPhysiqueNonTrouve) NoPayload, s)))"
proof (intro conjI allI impI)
  assume "fileId \<notin> id_f ` set (readData s)"
  then have "find (\<lambda>f. id_f f = fileId) (readData s) = None"
    by (auto simp: find_None_iff)
  then show "download e fileId s = (Json 404 False (Some FichierNonTrouve) NoPayload, s)"
    by (simp add: download_def)
next
  fix f
  assume "find (\<lambda>f. id_f f = fileId) (readData s) = Some f"
    and "\<exists>t. dateValue e (expiryDate f) = Some t \<and> t < now e"
  then show "download e fileId s = (Json 403 False (Some FichierExpire) NoPayload, s)"
    by (simp add: download_def isExpired_iff)
next
  fix f
  assume "find (\<lambda>f. id_f f = fileId) (readData s) = Some f"
    and "\<not> (\<exists>t. dateValue e (expiryDate f) = Some t \<and> t < now e) \<and> storedFilename f \<notin> uploads s"
  then show "download e fileId s = (Json 404 False (Some FichierPhysiqueNonTrouve) NoPayload, s)"
    by (simp add: download_def isExpired_iff)
qed

theorem download_errors_witness:
  "download sampleEnv ''f9'' sampleServer =
     (Json 404 False (Some FichierNonTrouve) NoPayload, sampleServer) \<and>
   storedFilename sampleExpired \<in> uploads sampleServer \<and>
   download sampleEnv ''f2'' sampleServer =
     (Json 403 False (Some FichierExpire) NoPayload, sampleServer) \<and>
   download sampleEnv ''f3'' sampleServer =
     (Json 404 False (Some FichierPhysiqueNonTrouve) NoPayload, sampleServer)"
proof -
  have expired: "\<exists>t. dateValue sampleEnv (expiryDate sampleExpired) = Some t \<and> t < now sampleEnv"
    by (simp add: sampleExpired_def sampleEnv_def sampleDate_def)
  have missing: "\<not> (\<exists>t. dateValue sampleEnv (expiryDate sampleMissing) = Some t \<and> t < now sampleEnv) \<and>
      storedFilename sampleMissing \<notin> uploads sampleServer"
    by (simp add: sampleMissing_def sampleFile_def sampleEnv_def sampleDate_def sampleServer_def)
  have present: "storedFilename sampleExpired \<in> uploads sampleServer"
    by (simp add: sampleExpired_def sampleServer_def)
  from download_errors[of "''f9''" sampleServer sampleEnv] sample_finds(4)
  have "download sampleEnv ''f9'' sampleServer =
     (Json 404 False (Some FichierNonTrouve) NoPayload, sampleServer)"
    by blast
  moreover from download_errors[of "''f2''" sampleServer sampleEnv] sample_finds(2) expired
  have "download sampleEnv ''f2'' sampleServer =
     (Json 403 False (Some FichierExpire) NoPayload, sampleServer)"
    by blast
  moreover from download_errors[of "''f3''" sampleServer sampleEnv] sample_finds(3) missing
  have "download sampleEnv ''f3'' sampleServer =
     (Json 404 False (Some FichierPhysiqueNonTrouve) NoPayload, sampleServer)"
    by blast
  ultimately show ?thesis
    using present by simp
qed

lemma countDownload_id: "id_f (countDownload f) = id_f f"
  by (simp add: countDownload_def)

lemma download_SendFile:
  assumes "download e fileId s = (SendFile stored shown, s')"
  shows "\<exists>f. find (\<lambda>f. id_f f = fileId) (readData s) = Some f \<and>
             find (\<lambda>f. id_f f = fileId) (readData s') = Some (countDownload f) \<and>
             stored = storedFilename f \<and> shown = filename f \<and> stored \<in> uploads s"
proof (cases "find (\<lambda>f. id_f f = fileId) (readData s)")
  case None
  with assms show ?thesis
    by (simp add: download_def)
next
  case (Some f)
  with assms have sent: "\<not> isExpired e f" "storedFilename f \<in> uploads s" "\<not> writeFails e"
    and s': "s' = s\<lparr>dataFile := Some (assignFound (\<lambda>f. id_f f = fileId) countDownload (readData s))\<rparr>"
    and names: "stored = storedFilename f" "shown = filename f"
    by (auto simp: download_def writeData_def split: if_splits)
  have "find (\<lambda>f. id_f f = fileId) (readData s') = Some (countDownload f)"
    unfolding s' using Some
    by (simp add: readData_def find_assignFound countDownload_id)
  with Some sent names show ?thesis
    by simp
qed

lemma downloads_count:
  assumes "downloads es fileId s = Some s'"
    and "find (\<lambda>f. id_f f = fileId) (readData s) = Some f"
  shows "\<exists>f'. find (\<lambda>f. id_f f = fileId) (readData s') = Some f' \<and>
              orZero (downloadCount f') = orZero (downloadCount f) + length es \<and>
              (es \<noteq> [] \<longrightarrow> downloadCount f' = Some (orZero (downloadCount f) + length es))"
  using assms
proof (induction es arbitrary: s f)
  case Nil
  then show ?case by simp
next
  case (Cons e es)
  from Cons.prems(1) obtain stored shown s1 where
    first: "download e fileId s = (SendFile stored shown, s1)"
    and rest: "downloads es fileId s1 = Some s'"
    by (auto split: prod.splits response.splits)
  from download_SendFile[OF first] Cons.prems(2)
  have f1: "find (\<lambda>f. id_f f = fileId) (readData s1) = Some (countDownload f)"
    by auto
  from Cons.IH[OF rest f1] obtain f' where
    f': "find (\<lambda>f. id_f f = fileId) (readData s') = Some f'"
    and cnt: "orZero (downloadCount f') = orZero (downloadCount (countDownload f)) + length es"
    and some: "es \<noteq> [] \<longrightarrow> downloadCount f' = Some (orZero (downloadCount (countDownload f)) + length es)"
    by blast
  have "orZero (downloadCount (countDownload f)) = orZero (downloadCount f) + 1"
    by (simp add: countDownload_def orZero_def)
  moreover have "es = [] \<Longrightarrow> f' = countDownload f"
    using rest f1 f' by simp
  ultimately show ?case
    using f' cnt some by (cases "es = []") (auto simp: countDownload_def)
qed

lemma download_sampleFile:
  "download sampleEnv ''f1''
     (sampleServer\<lparr>dataFile := Some [sampleFile\<lparr>downloadCount := c\<rparr>, sampleExpired, sampleMissing]\<rparr>) =
   (SendFile ''1700000000000-f1.ovpn'' ''a.ovpn'',
    sampleServer\<lparr>dataFile :=
      Some [sampleFile\<lparr>downloadCount := Some (orZero c + 1)\<rparr>, sampleExpired, sampleMissing]\<rparr>)"
  by (simp add: download_def readData_def sampleServer_def sampleFile_def isExpired_def
      sampleEnv_def sampleDate_def writeData_def countDownload_def)

text \<open>
  C6: a download that starts a transfer has, before \<^verbatim>\<open>res.download\<close> is called, written the
  list in which the download count of the record is one more than it was (a missing count
  is read as 0); the callback of the transfer changes nothing, so an error of the transfer
  leaves the count incremented. After \<open>N\<close> downloads of one id in sequence, each of which
  starts a transfer, a record whose count was 0 has the count \<open>N\<close>.
\<close>

theorem download_counts:
  "(\<forall>stored shown s'. download e fileId s = (SendFile stored shown, s') \<longrightarrow>
      (\<exists>f. find (\<lambda>f. id_f f = fileId) (readData s) = Some f \<and>
           find (\<lambda>f. id_f f = fileId) (readData s') =
             Some (f\<lparr>downloadCount := Some (orZero (downloadCount f) + 1)\<rparr>) \<and>
           (\<forall>err headersSent. snd (downloadCallback err headersSent s') = s'))) \<and>
   (\<forall>es s' f. downloads es fileId s = Some s' \<and>
        find (\<lambda>f. id_f f = fileId) (readData s) = Some f \<and> downloadCount f = Some 0 \<longrightarrow>
      (\<exists>f'. find (\<lambda>f. id_f f = fileId) (readData s') = Some f' \<and>
            downloadCount f' = Some (length es)))"
proof (intro conjI allI impI)
  fix stored shown s'
  assume "download e fileId s = (SendFile stored shown, s')"
  from download_SendFile[OF this]
  show "\<exists>f. find (\<lambda>f. id_f f = fileId) (readData s) = Some f \<and>
           find (\<lambda>f. id_f f = fileId) (readData s') =
             Some (f\<lparr>downloadCount := Some (orZero (downloadCount f) + 1)\<rparr>) \<and>
           (\<forall>err headersSent. snd (downloadCallback err headersSent s') = s')"
    by (auto simp: countDownload_def downloadCallback_def)
next
  fix es s' f
  assume a: "downloads es fileId s = Some s' \<and>
        find (\<lambda>f. id_f f = fileId) (readData s) = Some f \<and> downloadCount f = Some 0"
  then obtain f' where
    f': "find (\<lambda>f. id_f f = fileId) (readData s') = Some f'"
    and some: "es \<noteq> [] \<longrightarrow> downloadCount f' = Some (orZero (downloadCount f) + length es)"
    using downloads_count[of es fileId s s' f] by blast
  have "downloadCount f' = Some (length es)"
  proof (cases "es = []")
    case True
    with a f' show ?thesis by auto
  next
    case False
    with some a show ?thesis by (simp add: orZero_def)
  qed
  with f' show "\<exists>f'. find (\<lambda>f. id_f f = fileId) (readData s') = Some f' \<and>
            downloadCount f' = Some (length es)"
    by blast
qed


theorem download_counts_witness:
  "download sampleEnv ''f1'' sampleServer =
     (SendFile ''1700000000000-f1.ovpn'' ''a.ovpn'',
      sampleServer\<lparr>dataFile :=
        Some [sampleFile\<lparr>downloadCount := Some 1\<rparr>, sampleExpired, sampleMissing]\<rparr>) \<and>
   find (\<lambda>f. id_f f = ''f1'')
     (readData (sampleServer\<lparr>dataFile :=
        Some [sampleFile\<lparr>downloadCount := Some 1\<rparr>, sampleExpired, sampleMissing]\<rparr>)) =
     Some (sampleFile\<lparr>downloadCount := Some 1\<rparr>) \<and>
   downloads [sampleEnv, sampleEnv, sampleEnv] ''f1'' sampleServer =
     Some (sampleServer\<lparr>dataFile :=
        Some [sampleFile\<lparr>downloadCount := Some 3\<rparr>, sampleExpired, sampleMissing]\<rparr>) \<and>
   (\<exists>f'. find (\<lambda>f. id_f f = ''f1'')
           (readData (sampleServer\<lparr>dataFile :=
              Some [sampleFile\<lparr>downloadCount := Some 3\<rparr>, sampleExpired, sampleMissing]\<rparr>)) = Some f' \<and>
         downloadCount f' = Some 3)"
proof -
  let ?after = "\<lambda>n. sampleServer\<lparr>dataFile :=
        Some [sampleFile\<lparr>downloadCount := Some n\<rparr>, sampleExpired, sampleMissing]\<rparr>"
  have start: "?after 0 = sampleServer"
    by (simp add: sampleServer_def sampleFile_def)
  have s01: "download sampleEnv ''f1'' (?after 0) =
      (SendFile ''1700000000000-f1.ovpn'' ''a.ovpn'', ?after 1)"
    by (simp add: download_sampleFile orZero_def)
  have s12: "download sampleEnv ''f1'' (?after 1) =
      (SendFile ''1700000000000-f1.ovpn'' ''a.ovpn'', ?after 2)"
    by (simp add: download_sampleFile orZero_def)
  have s23: "download sampleEnv ''f1'' (?after 2) =
      (SendFile ''1700000000000-f1.ovpn'' ''a.ovpn'', ?after 3)"
    by (simp add: download_sampleFile orZero_def)
  have one: "download sampleEnv ''f1'' sampleServer =
      (SendFile ''1700000000000-f1.ovpn'' ''a.ovpn'', ?after 1)"
    using s01 by (simp only: start)
  have "downloads [sampleEnv, sampleEnv, sampleEnv] ''f1'' (?after 0) = Some (?after 3)"
    by (simp only: downloads.simps s01 s12 s23 prod.case response.case)
  then have three: "downloads [sampleEnv, sampleEnv, sampleEnv] ''f1'' sampleServer = Some (?after 3)"
    by (simp only: start)
  have fresh: "downloadCount sampleFile = Some 0"
    by (simp add: sampleFile_def)
  from download_counts[of sampleEnv "''f1''" sampleServer] one sample_finds(1)
  have "find (\<lambda>f. id_f f = ''f1'') (readData (?after 1)) =
      Some (sampleFile\<lparr>downloadCount := Some (orZero (downloadCount sampleFile) + 1)\<rparr>)"
    by fastforce
  then have first: "find (\<lambda>f. id_f f = ''f1'') (readData (?after 1)) =
      Some (sampleFile\<lparr>downloadCount := Some 1\<rparr>)"
    by (simp add: fresh orZero_def)
  from download_counts[of sampleEnv "''f1''" sampleServer] three sample_finds(1) fresh
  have "\<exists>f'. find (\<lambda>f. id_f f = ''f1'') (readData (?after 3)) = Some f' \<and>
      downloadCount f' = Some (length [sampleEnv, sampleEnv, sampleEnv])"
    by blast
  moreover have "length [sampleEnv, sampleEnv, sampleEnv] = 3"
    by simp
  ultimately have last: "\<exists>f'. find (\<lambda>f. id_f f = ''f1'') (readData (?after 3)) = Some f' \<and>
      downloadCount f' = Some 3"
    by (simp only:)
  from one first three last show ?thesis
    by simp
qed

subsection \<open>Update\<close>

lemma findIndex_Some:
  "findIndex P xs = Some i \<Longrightarrow> i < length xs \<and> P (xs ! i)"
proof (induction xs arbitrary: i)
  case Nil
  then show ?case by simp
next
  case (Cons x xs)
  then show ?case
    by (cases "P x") auto
qed

lemma putFile_state:
  "snd (putFile e req s) = s \<or>
   (\<exists>i<length (readData s).
      snd (putFile e req s) =
        s\<lparr>dataFile := Some ((readData s)
             [i := (readData s ! i)
                \<lparr>name := the (callTrim (getProp (req_body req) ''name'')),
                 network := the (callTrim (getProp (req_body req) ''network'')),
                 expiryDate := getProp (req_body req) ''expiryDate'',
                 description := the (trimOrEmpty (getProp (req_body req) ''description''))\<rparr>])\<rparr>)"
proof (cases "findIndex (\<lambda>f. id_f f = req_params_id req) (readData s)")
  case None
  then show ?thesis
    by (simp add: putFile_def Let_def)
next
  case (Some i)
  then have "i < length (readData s)"
    by (simp add: findIndex_Some)
  with Some show ?thesis
    by (auto simp: putFile_def Let_def writeData_def split: option.splits)
qed

lemma map_frame_update:
  assumes "i < length xs" "g y = g (xs ! i)"
  shows "map g (xs[i := y]) = map g xs"
  using assms by (simp add: map_update list_update_same_conv)

lemma putFile_sample:
  "putFile sampleEnv
     (incoming (Some ''tok-A'') ''f1''
        [(''name'', JStr ''  Net2 ''), (''network'', JStr ''Work''),
         (''expiryDate'', JStr ''2030-01-01''), (''id'', JStr ''other''),
         (''downloadCount'', JNum 99), (''storedFilename'', JStr ''x'')])
     sampleServer =
   (Json 200 True (Some FichierModifie) (File (sampleFile\<lparr>name := ''Net2'', network := ''Work''\<rparr>)),
    sampleServer\<lparr>dataFile :=
      Some [sampleFile\<lparr>name := ''Net2'', network := ''Work''\<rparr>, sampleExpired, sampleMissing]\<rparr>)"
  by (simp add: putFile_def incoming_def getProp_def readData_sampleServer sampleFile_def
      sampleEnv_def sampleDate_def trimOrEmpty_def trim_def isWhiteSpace_def writeData_def Let_def)

text \<open>
  C4: whatever the body of an update request contains and whatever the outcome, every
  record keeps its \<^verbatim>\<open>id\<close>, \<^verbatim>\<open>storedFilename\<close>, \<^verbatim>\<open>downloadCount\<close>, \<^verbatim>\<open>createdAt\<close>, \<^verbatim>\<open>filename\<close> and
  \<^verbatim>\<open>size\<close>: an update changes at most \<^verbatim>\<open>name\<close>, \<^verbatim>\<open>network\<close>, \<^verbatim>\<open>expiryDate\<close> and \<^verbatim>\<open>description\<close>.
\<close>

theorem putFile_preserves:
  "map id_f (readData (snd (putFile e req s))) = map id_f (readData s) \<and>
   map storedFilename (readData (snd (putFile e req s))) = map storedFilename (readData s) \<and>
   map downloadCount (readData (snd (putFile e req s))) = map downloadCount (readData s) \<and>
   map createdAt (readData (snd (putFile e req s))) = map createdAt (readData s) \<and>
   map filename (readData (snd (putFile e req s))) = map filename (readData s) \<and>
   map size_f (readData (snd (putFile e req s))) = map size_f (readData s)"
  using putFile_state[of e req s]
  by (elim disjE exE conjE) (simp_all add: map_frame_update readData_def[of "_\<lparr>dataFile := _\<rparr>"])


theorem putFile_preserves_witness:
  "map name (readData (snd (putFile sampleEnv
     (incoming (Some ''tok-A'') ''f1''
        [(''name'', JStr ''  Net2 ''), (''network'', JStr ''Work''),
         (''expiryDate'', JStr ''2030-01-01''), (''id'', JStr ''other''),
         (''downloadCount'', JNum 99), (''storedFilename'', JStr ''x'')])
     sampleServer))) = [''Net2'', ''Net1'', ''Net1''] \<and>
   map id_f (readData (snd (putFile sampleEnv
     (incoming (Some ''tok-A'') ''f1''
        [(''name'', JStr ''  Net2 ''), (''network'', JStr ''Work''),
         (''expiryDate'', JStr ''2030-01-01''), (''id'', JStr ''other''),
         (''downloadCount'', JNum 99), (''storedFilename'', JStr ''x'')])
     sampleServer))) = [''f1'', ''f2'', ''f3''] \<and>
   map downloadCount (readData (snd (putFile sampleEnv
     (incoming (Some ''tok-A'') ''f1''
        [(''name'', JStr ''  Net2 ''), (''network'', JStr ''Work''),
         (''expiryDate'', JStr ''2030-01-01''), (''id'', JStr ''other''),
         (''downloadCount'', JNum 99), (''storedFilename'', JStr ''x'')])
     sampleServer))) = [Some 0, Some 0, Some 0]"
proof -
  let ?req = "incoming (Some ''tok-A'') ''f1''
        [(''name'', JStr ''  Net2 ''), (''network'', JStr ''Work''),
         (''expiryDate'', JStr ''2030-01-01''), (''id'', JStr ''other''),
         (''downloadCount'', JNum 99), (''storedFilename'', JStr ''x'')]"
  have "map name (readData (snd (putFile sampleEnv ?req sampleServer))) = [''Net2'', ''Net1'', ''Net1'']"
    by (simp add: putFile_sample readData_def sampleExpired_def sampleMissing_def sampleFile_def)
  moreover have "map id_f (readData sampleServer) = [''f1'', ''f2'', ''f3'']"
    and "map downloadCount (readData sampleServer) = [Some 0, Some 0, Some 0]"
    by (simp_all add: readData_sampleServer sampleExpired_def sampleMissing_def sampleFile_def)
  ultimately show ?thesis
    using putFile_preserves[of sampleEnv ?req sampleServer] by simp
qed

subsection \<open>Upload\<close>

text \<open>When \<^verbatim>\<open>fs.remove\<close> does not raise, an upload whose name, network or expiry date is
  missing or empty, or whose expiry date is a valid date not after the current time, is
  answered 400, the list of records is as before, and the bytes that multer stored for the
  request are no longer in \<^verbatim>\<open>uploads\<close>.\<close>

lemma postFile_validation_failure:
  assumes "req_file req = Some upl"
    and "\<not> removeFails e"
    and "\<not> truthy (getProp (req_body req) ''name'') \<or>
         \<not> truthy (getProp (req_body req) ''network'') \<or>
         \<not> truthy (getProp (req_body req) ''expiryDate'') \<or>
         (\<exists>t. dateValue e (getProp (req_body req) ''expiryDate'') = Some t \<and> t \<le> now e)"
  shows "\<exists>m. postFile e req (storeUpload upl s) =
               (Json 400 False (Some m) NoPayload, s\<lparr>uploads := uploads s - {file_filename upl}\<rparr>) \<and>
             (m = ChampsRequis \<or> m = DateFuture) \<and>
             readData (snd (postFile e req (storeUpload upl s))) = readData s \<and>
             file_filename upl \<notin> uploads (snd (postFile e req (storeUpload upl s)))"
proof -
  have removed: "fsRemove e (file_filename upl) (storeUpload upl s) =
      Some (s\<lparr>uploads := uploads s - {file_filename upl}\<rparr>)"
    using assms(2) by (simp add: fsRemove_def storeUpload_def)
  show ?thesis
  proof (cases "\<not> truthy (getProp (req_body req) ''name'') \<or>
         \<not> truthy (getProp (req_body req) ''network'') \<or>
         \<not> truthy (getProp (req_body req) ''expiryDate'')")
    case True
    then have "postFile e req (storeUpload upl s) =
        (Json 400 False (Some ChampsRequis) NoPayload, s\<lparr>uploads := uploads s - {file_filename upl}\<rparr>)"
      using assms(1) removed by (auto simp: postFile_def Let_def)
    then show ?thesis
      by (simp add: readData_def)
  next
    case False
    with assms(3) have "js_le (dateValue e (getProp (req_body req) ''expiryDate'')) (Some (now e))"
      by (simp add: js_le_iff)
    with False have "postFile e req (storeUpload upl s) =
        (Json 400 False (Some DateFuture) NoPayload, s\<lparr>uploads := uploads s - {file_filename upl}\<rparr>)"
      using assms(1) removed by (auto simp: postFile_def Let_def)
    then show ?thesis
      by (simp add: readData_def)
  qed
qed

lemma postFile_validation_failure_example:
  "postFile sampleEnv
     ((incoming (Some ''tok-A'') [] [(''network'', JStr ''Home''), (''expiryDate'', JStr ''2030-01-01'')])
        \<lparr>req_file := Some sampleUpload\<rparr>)
     (storeUpload sampleUpload sampleServer) =
     (Json 400 False (Some ChampsRequis) NoPayload, sampleServer) \<and>
   postFile sampleEnv
     ((incoming (Some ''tok-A'') []
        [(''name'', JStr ''Net2''), (''network'', JStr ''Home''), (''expiryDate'', JStr ''2020-01-01'')])
        \<lparr>req_file := Some sampleUpload\<rparr>)
     (storeUpload sampleUpload sampleServer) =
     (Json 400 False (Some DateFuture) NoPayload, sampleServer) \<and>
   file_filename sampleUpload \<in> uploads (storeUpload sampleUpload sampleServer) \<and>
   file_filename sampleUpload \<notin> uploads sampleServer"
proof -
  let ?noName = "(incoming (Some ''tok-A'') []
        [(''network'', JStr ''Home''), (''expiryDate'', JStr ''2030-01-01'')])
        \<lparr>req_file := Some sampleUpload\<rparr>"
  let ?past = "(incoming (Some ''tok-A'') []
        [(''name'', JStr ''Net2''), (''network'', JStr ''Home''), (''expiryDate'', JStr ''2020-01-01'')])
        \<lparr>req_file := Some sampleUpload\<rparr>"
  have fresh: "file_filename sampleUpload \<notin> uploads sampleServer"
    by (simp add: sampleUpload_def sampleServer_def)
  then have same: "sampleServer\<lparr>uploads := uploads sampleServer - {file_filename sampleUpload}\<rparr> = sampleServer"
    by simp
  have stored: "file_filename sampleUpload \<in> uploads (storeUpload sampleUpload sampleServer)"
    by (simp add: storeUpload_def)
  have f1: "req_file ?noName = Some sampleUpload" and f2: "req_file ?past = Some sampleUpload"
    by (simp_all add: incoming_def)
  have rm: "\<not> removeFails sampleEnv"
    by (simp add: sampleEnv_def)
  have h1: "\<not> truthy (getProp (req_body ?noName) ''name'')"
    by (simp add: incoming_def getProp_def)
  have h2: "\<exists>t. dateValue sampleEnv (getProp (req_body ?past) ''expiryDate'') = Some t \<and> t \<le> now sampleEnv"
    by (simp add: incoming_def getProp_def sampleEnv_def sampleDate_def)
  from postFile_validation_failure[OF f1 rm, of sampleServer] h1
  obtain m where m: "postFile sampleEnv ?noName (storeUpload sampleUpload sampleServer) =
      (Json 400 False (Some m) NoPayload, sampleServer)"
    unfolding same by blast
  have "m = ChampsRequis"
    using m h1 f1 by (simp add: postFile_def Let_def split: option.splits)
  from postFile_validation_failure[OF f2 rm, of sampleServer] h2
  obtain m' where m': "postFile sampleEnv ?past (storeUpload sampleUpload sampleServer) =
      (Json 400 False (Some m') NoPayload, sampleServer)"
    unfolding same by blast
  have "m' = DateFuture"
    using m' f2
    by (simp add: postFile_def Let_def incoming_def getProp_def sampleEnv_def sampleDate_def
        split: option.splits)
  from m m' \<open>m = ChampsRequis\<close> \<open>m' = DateFuture\<close> stored fresh show ?thesis
    by simp
qed


text \<open>
  C5: every upload whose metadata fail validation is answered with the validation error
  (400), adds no record, and has its stored bytes deleted. In the source \<^verbatim>\<open>await fs.remove\<close>
  stands inside the \<^verbatim>\<open>try\<close> of the handler, before the \<^verbatim>\<open>return res.status(400)\<close>: when
  the removal raises, the \<^verbatim>\<open>catch\<close> answers 500 with the message of a failed addition in
  place of the validation error, and the stored bytes stay.
\<close>

theorem postFile_cleanup_failure:
  assumes "req_file req = Some upl"
    and "removeFails e"
    and "\<not> truthy (getProp (req_body req) ''name'') \<or>
         \<not> truthy (getProp (req_body req) ''network'') \<or>
         \<not> truthy (getProp (req_body req) ''expiryDate'') \<or>
         (\<exists>t. dateValue e (getProp (req_body req) ''expiryDate'') = Some t \<and> t \<le> now e)"
  shows "postFile e req (storeUpload upl s) =
           (Json 500 False (Some ErreurAjout) NoPayload, storeUpload upl s) \<and>
         file_filename upl \<in> uploads (snd (postFile e req (storeUpload upl s)))"
proof -
  have kept: "fsRemove e (file_filename upl) (storeUpload upl s) = None"
    using assms(2) by (simp add: fsRemove_def)
  have "js_le (dateValue e (getProp (req_body req) ''expiryDate'')) (Some (now e))"
    if "truthy (getProp (req_body req) ''name'')" "truthy (getProp (req_body req) ''network'')"
      "truthy (getProp (req_body req) ''expiryDate'')"
    using that assms(3) by (cases "dateValue e (getProp (req_body req) ''expiryDate'')") auto
  then have "postFile e req (storeUpload upl s) =
      (Json 500 False (Some ErreurAjout) NoPayload, storeUpload upl s)"
    using assms(1) kept by (auto simp: postFile_def Let_def)
  then show ?thesis
    by (simp add: storeUpload_def)
qed

theorem postFile_cleanup_failure_witness:
  "postFile (sampleEnv\<lparr>removeFails := True\<rparr>)
     ((incoming (Some ''tok-A'') [] [(''network'', JStr ''Home''), (''expiryDate'', JStr ''2030-01-01'')])
        \<lparr>req_file := Some sampleUpload\<rparr>)
     (storeUpload sampleUpload sampleServer) =
     (Json 500 False (Some ErreurAjout) NoPayload, storeUpload sampleUpload sampleServer) \<and>
   file_filename sampleUpload \<in> uploads (storeUpload sampleUpload sampleServer)"
proof -
  let ?e = "sampleEnv\<lparr>removeFails := True\<rparr>"
  let ?noName = "(incoming (Some ''tok-A'') []
        [(''network'', JStr ''Home''), (''expiryDate'', JStr ''2030-01-01'')])
        \<lparr>req_file := Some sampleUpload\<rparr>"
  have f: "req_file ?noName = Some sampleUpload"
    by (simp add: incoming_def)
  have rm: "removeFails ?e"
    by simp
  have h: "\<not> truthy (getProp (req_body ?noName) ''name'')"
    by (simp add: incoming_def getProp_def)
  from postFile_cleanup_failure[OF f rm, of sampleServer] h
  have "postFile ?e ?noName (storeUpload sampleUpload sampleServer) =
      (Json 500 False (Some ErreurAjout) NoPayload, storeUpload sampleUpload sampleServer)"
    by blast
  then show ?thesis
    by (simp add: storeUpload_def)
qed

lemma trim_blank: "trim ''   '' = []"
  by (simp add: trim_def isWhiteSpace_def)

text \<open>
  C8: no record is stored whose trimmed name or network is empty. The handlers test
  \<^verbatim>\<open>!name\<close> and \<^verbatim>\<open>!network\<close> on the submitted strings and store the trimmed strings: an
  upload whose name is three spaces is accepted and stored with the empty name, and an
  update whose network is three spaces stores the empty network.
\<close>

theorem blank_name_is_stored:
  "map name (readData (snd (postFile sampleEnv
     ((incoming (Some ''tok-A'') []
        [(''name'', JStr ''   ''), (''network'', JStr ''Home''), (''expiryDate'', JStr ''2030-01-01'')])
        \<lparr>req_file := Some sampleUpload\<rparr>)
     (storeUpload sampleUpload sampleServer)))) = [''Net1'', ''Net1'', ''Net1'', []] \<and>
   map network (readData (snd (putFile sampleEnv
     (incoming (Some ''tok-A'') ''f1''
        [(''name'', JStr ''Net1''), (''network'', JStr ''   ''), (''expiryDate'', JStr ''2030-01-01'')])
     sampleServer))) = [[], ''Home'', ''Home'']"
proof -
  have "map name (readData (snd (postFile sampleEnv
     ((incoming (Some ''tok-A'') []
        [(''name'', JStr ''   ''), (''network'', JStr ''Home''), (''expiryDate'', JStr ''2030-01-01'')])
        \<lparr>req_file := Some sampleUpload\<rparr>)
     (storeUpload sampleUpload sampleServer)))) = [''Net1'', ''Net1'', ''Net1'', []]"
    by (simp add: postFile_def incoming_def getProp_def sampleEnv_def sampleDate_def
        trimOrEmpty_def trim_blank writeData_def Let_def readData_def storeUpload_def
        sampleServer_def sampleFile_def sampleExpired_def sampleMissing_def)
  moreover have "map network (readData (snd (putFile sampleEnv
     (incoming (Some ''tok-A'') ''f1''
        [(''name'', JStr ''Net1''), (''network'', JStr ''   ''), (''expiryDate'', JStr ''2030-01-01'')])
     sampleServer))) = [[], ''Home'', ''Home'']"
    by (simp add: putFile_def incoming_def getProp_def sampleEnv_def sampleDate_def
        trimOrEmpty_def trim_blank trim_def isWhiteSpace_def writeData_def Let_def readData_def
        sampleServer_def sampleFile_def sampleExpired_def sampleMissing_def)
  ultimately show ?thesis
    by (rule conjI)
qed

theorem blank_name_is_stored_witness:
  "[] \<in> set (map name (readData (snd (postFile sampleEnv
     ((incoming (Some ''tok-A'') []
        [(''name'', JStr ''   ''), (''network'', JStr ''Home''), (''expiryDate'', JStr ''2030-01-01'')])
        \<lparr>req_file := Some sampleUpload\<rparr>)
     (storeUpload sampleUpload sampleServer))))) \<and>
   [] \<in> set (map network (readData (snd (putFile sampleEnv
     (incoming (Some ''tok-A'') ''f1''
        [(''name'', JStr ''Net1''), (''network'', JStr ''   ''), (''expiryDate'', JStr ''2030-01-01'')])
     sampleServer))))"
proof -
  have "[] \<in> set [''Net1'', ''Net1'', ''Net1'', []]" and "[] \<in> set [[], ''Home'', ''Home'']"
    by simp_all
  with blank_name_is_stored show ?thesis
    by (simp only:)
qed

subsection \<open>An unreadable data file\<close>

text \<open>
  C10, as stated: when the data file cannot be read, the operation reports the failure
  with \<^verbatim>\<open>success: false\<close>. The listing of a server whose data file is unreadable answers
  200 with \<^verbatim>\<open>success: true\<close> and no files.
\<close>

theorem unreadable_data_reported_as_success:
  "dataFile (sampleServer\<lparr>dataFile := None\<rparr>) = None \<and>
   fst (getFiles sampleEnv (sampleServer\<lparr>dataFile := None\<rparr>)) = Json 200 True None (Files [])"
  by (simp add: getFiles_def readData_def)

text \<open>
  C10, amended: when the data file cannot be read, \<^verbatim>\<open>readData\<close> returns the empty list and
  the operation proceeds as on an empty registry: the listing answers 200 with
  \<^verbatim>\<open>success: true\<close> and no files, a download and an update answer 404 (file not found), and
  the state is unchanged.
\<close>

theorem unreadable_data_is_empty:
  assumes "dataFile s = None"
  shows "readData s = [] \<and>
         getFiles e s = (Json 200 True None (Files []), s) \<and>
         download e fileId s = (Json 404 False (Some FichierNonTrouve) NoPayload, s) \<and>
         putFile e req s = (Json 404 False (Some FichierNonTrouve) NoPayload, s)"
  using assms by (simp add: readData_def getFiles_def download_def putFile_def)

theorem unreadable_data_is_empty_witness:
  "dataFile (sampleServer\<lparr>dataFile := None\<rparr>) = None \<and>
   getFiles sampleEnv (sampleServer\<lparr>dataFile := None\<rparr>) =
     (Json 200 True None (Files []), sampleServer\<lparr>dataFile := None\<rparr>) \<and>
   download sampleEnv ''f1'' (sampleServer\<lparr>dataFile := None\<rparr>) =
     (Json 404 False (Some FichierNonTrouve) NoPayload, sampleServer\<lparr>dataFile := None\<rparr>)"
proof -
  have unreadable: "dataFile (sampleServer\<lparr>dataFile := None\<rparr>) = None"
    by simp
  from unreadable_data_is_empty[OF unreadable, of sampleEnv "''f1''"] unreadable
  show ?thesis
    by blast
qed

end
